theory Spec2Isabelle
  imports Complex_Main
begin

section \<open>Exceptions and tensors\<close>

text \<open>
  The model of \<^verbatim>\<open>models/iwae.py\<close>. Every exception the Python code (or the
  tensor library below it) raises is a value \<open>Inl e\<close>; a normal return is \<open>Inr v\<close>.
  Tensor entries are real numbers. Of 32-bit floating point the model
  represents the rounding of the result of \<open>Tanh\<close> (section Network layers),
  since whether a bound is attained depends on it. All other arithmetic is
  exact; overflow to infinity and NaN are not represented, and a division by
  zero (which the tensor library answers with an infinity or NaN, never with
  an exception) has the value HOL gives it.
\<close>

datatype error =
    IndexError
  | KeyError string
  | NameError string
  | TypeError
  | ValueError
  | RuntimeError

definition bindE :: "error + 'a \<Rightarrow> ('a \<Rightarrow> error + 'b) \<Rightarrow> error + 'b" where
  "bindE r f = (case r of Inl e \<Rightarrow> Inl e | Inr v \<Rightarrow> f v)"

text \<open>
  A tensor is its shape and its entries in row-major order; a well-formed
  tensor has as many entries as its shape says.
\<close>

record tensor =
  shape :: "nat list"
  data :: "real list"

definition numel :: "nat list \<Rightarrow> nat" where
  "numel s = prod_list s"

definition wf_tensor :: "tensor \<Rightarrow> bool" where
  "wf_tensor t = (length (data t) = numel (shape t))"

definition tmap :: "(real \<Rightarrow> real) \<Rightarrow> tensor \<Rightarrow> tensor" where
  "tmap f t = \<lparr>shape = shape t, data = map f (data t)\<rparr>"

text \<open>The 0-dimensional tensor \<^verbatim>\<open>torch.tensor(x)\<close>.\<close>

definition scalar :: "real \<Rightarrow> tensor" where
  "scalar x = \<lparr>shape = [], data = [x]\<rparr>"

subsection \<open>Broadcasting binary operations\<close>

text \<open>
  The library aligns two shapes at their last dimension; two sizes are
  compatible when they are equal or one of them is 1, and a missing leading
  dimension counts as 1. \<open>broadcast_rev\<close> works on the reversed shapes.
\<close>

fun broadcast_rev :: "nat list \<Rightarrow> nat list \<Rightarrow> error + nat list" where
  "broadcast_rev [] ys = Inr ys"
| "broadcast_rev (x # xs) [] = Inr (x # xs)"
| "broadcast_rev (x # xs) (y # ys) =
     (if x = y \<or> y = 1 then bindE (broadcast_rev xs ys) (\<lambda>r. Inr (x # r))
      else if x = 1 then bindE (broadcast_rev xs ys) (\<lambda>r. Inr (y # r))
      else Inl RuntimeError)"

definition broadcast_shapes :: "nat list \<Rightarrow> nat list \<Rightarrow> error + nat list" where
  "broadcast_shapes s1 s2 = bindE (broadcast_rev (rev s1) (rev s2)) (\<lambda>r. Inr (rev r))"

text \<open>Row-major flat index to multi-index and back.\<close>

fun unravel :: "nat list \<Rightarrow> nat \<Rightarrow> nat list" where
  "unravel [] i = []"
| "unravel (d # ds) i = (i div prod_list ds) mod d # unravel ds i"

fun ravel :: "nat list \<Rightarrow> nat list \<Rightarrow> nat" where
  "ravel (d # ds) (j # js) = j * prod_list ds + ravel ds js"
| "ravel _ _ = 0"

text \<open>
  The entry of an operand of shape \<open>s\<close> that the output multi-index \<open>idx\<close>
  reads: the trailing coordinates, with 0 along every dimension of size 1.
\<close>

definition src_index :: "nat list \<Rightarrow> nat list \<Rightarrow> nat" where
  "src_index s idx =
     ravel s (map2 (\<lambda>d j. if d = 1 then 0 else j) s (drop (length idx - length s) idx))"

definition bop :: "(real \<Rightarrow> real \<Rightarrow> real) \<Rightarrow> tensor \<Rightarrow> tensor \<Rightarrow> error + tensor" where
  "bop f a b =
     (if shape a = shape b
      then Inr \<lparr>shape = shape a, data = map2 f (data a) (data b)\<rparr>
      else bindE (broadcast_shapes (shape a) (shape b)) (\<lambda>os.
        Inr \<lparr>shape = os,
             data = map (\<lambda>i. f (data a ! src_index (shape a) (unravel os i))
                               (data b ! src_index (shape b) (unravel os i)))
                        [0..<numel os]\<rparr>))"

subsection \<open>Reductions along one dimension\<close>

text \<open>
  Python's dimension argument may be negative (counted from the end). A
  0-dimensional tensor accepts the dimensions 0 and -1.
\<close>

definition norm_dim :: "nat \<Rightarrow> int \<Rightarrow> error + nat" where
  "norm_dim r d =
     (let r' = (if r = 0 then 1 else int r)
      in if - r' \<le> d \<and> d < r' then Inr (nat (if d < 0 then d + r' else d))
         else Inl IndexError)"

text \<open>
  The lanes of a tensor along dimension \<open>d\<close>, in the row-major order of the
  remaining dimensions.
\<close>

definition lanes :: "nat \<Rightarrow> tensor \<Rightarrow> real list list" where
  "lanes d t =
     (let s = shape t; n = s ! d;
          inner = prod_list (drop (Suc d) s); outer = prod_list (take d s)
      in concat (map (\<lambda>out. map (\<lambda>i. map (\<lambda>k. data t ! ((out * n + k) * inner + i)) [0..<n])
                                   [0..<inner])
                     [0..<outer]))"

definition reduce_dim :: "(real list \<Rightarrow> real) \<Rightarrow> int \<Rightarrow> tensor \<Rightarrow> error + tensor" where
  "reduce_dim f dm t =
     bindE (norm_dim (length (shape t)) dm) (\<lambda>d.
       if shape t = [] then Inr (scalar (f (data t)))
       else Inr \<lparr>shape = take d (shape t) @ drop (Suc d) (shape t),
                 data = map f (lanes d t)\<rparr>)"

definition sum_dim :: "int \<Rightarrow> tensor \<Rightarrow> error + tensor" where
  "sum_dim = reduce_dim sum_list"

definition mean_dim :: "int \<Rightarrow> tensor \<Rightarrow> error + tensor" where
  "mean_dim = reduce_dim (\<lambda>l. sum_list l / real (length l))"

text \<open>
  \<^verbatim>\<open>F.softmax(x, dim)\<close>: every lane \<open>x\<close> along the dimension becomes
  \<open>exp x\<^sub>k / \<Sum>\<^sub>j exp x\<^sub>j\<close>. (The library subtracts the lane's maximum first, which
  changes nothing over the reals.)
\<close>

definition softmax_lane :: "real list \<Rightarrow> real list" where
  "softmax_lane l = map (\<lambda>x. exp x / sum_list (map exp l)) l"

definition softmax :: "int \<Rightarrow> tensor \<Rightarrow> error + tensor" where
  "softmax dm t =
     bindE (norm_dim (length (shape t)) dm) (\<lambda>d.
       if shape t = [] then Inr (scalar 1)
       else let s = shape t; n = s ! d; inner = prod_list (drop (Suc d) s)
            in Inr \<lparr>shape = s,
                    data = map (\<lambda>i. softmax_lane
                                       (lanes d t ! ((i div (n * inner)) * inner + i mod inner))
                                     ! ((i div inner) mod n))
                               [0..<numel s]\<rparr>)"

text \<open>
  \<^verbatim>\<open>flatten(start_dim=1)\<close> keeps the first dimension and merges the others;
  a tensor with fewer than two dimensions has no dimension 1.
\<close>

definition flatten1 :: "tensor \<Rightarrow> error + tensor" where
  "flatten1 t =
     (case shape t of
        n # d # ds \<Rightarrow> Inr \<lparr>shape = [n, prod_list (d # ds)], data = data t\<rparr>
      | _ \<Rightarrow> Inl IndexError)"

text \<open>
  \<^verbatim>\<open>view(-1, 512, 2, 2)\<close>: the number of entries must be a positive multiple
  of 2048, and the first dimension is inferred.
\<close>

definition view_512_2_2 :: "tensor \<Rightarrow> error + tensor" where
  "view_512_2_2 t =
     (let n = numel (shape t)
      in if 0 < n \<and> n mod 2048 = 0
         then Inr \<lparr>shape = [n div 2048, 512, 2, 2], data = data t\<rparr>
         else Inl RuntimeError)"

section \<open>Network layers\<close>

text \<open>
  The layers of \<^verbatim>\<open>torch.nn\<close> that the model is built from. What a layer
  does to the shape of its input, and when it refuses it, is written out. What
  a layer with learned parameters computes is not fixed by the source: it is
  the layer's last component, a function from the input tensor to the output
  entry at each row-major position. \<open>LeakyReLU\<close> (slope 0.01) and \<open>Tanh\<close>
  have no parameters and work entry by entry.

  Creating a layer with learned parameters initialises them with random
  values: \<^verbatim>\<open>reset_parameters\<close> of a convolution or a linear layer fills the
  weight (\<^verbatim>\<open>kaiming_uniform_\<close>) and the bias (\<^verbatim>\<open>uniform_\<close>) from the library's
  global random generator, one value per entry. \<open>BatchNorm2d\<close> starts from
  ones and zeros and draws nothing. \<open>init_draws m\<close> is the number of values
  that creating the module \<open>m\<close> draws.

  Arguments: \<open>Conv2d in out kernel stride padding\<close>,
  \<open>ConvTranspose2d in out kernel stride padding output_padding\<close>,
  \<open>BatchNorm2d features\<close>, \<open>Linear in out\<close>.
\<close>

type_synonym numeric = "tensor \<Rightarrow> nat \<Rightarrow> real"

datatype nn_module =
    Conv2d nat nat nat nat nat numeric
  | ConvTranspose2d nat nat nat nat nat nat numeric
  | BatchNorm2d nat numeric
  | LeakyReLU
  | Tanh
  | Linear nat nat numeric
  | Sequential "nn_module list"

definition filled :: "nat list \<Rightarrow> (nat \<Rightarrow> real) \<Rightarrow> tensor" where
  "filled s g = \<lparr>shape = s, data = map g [0..<numel s]\<rparr>"

definition leaky_relu :: "real \<Rightarrow> real" where
  "leaky_relu x = (if 0 \<le> x then x else 0.01 * x)"

text \<open>
  \<open>Tanh\<close> returns 32-bit floating-point numbers. Such a number has a
  significand of 24 bits and an exponent of at least -126, so around \<open>x\<close>, with
  \<open>2 ^ e \<le> \<bar>x\<bar> < 2 ^ (e + 1)\<close>, the numbers are the multiples of
  \<open>2 ^ (e - 23)\<close> (of \<open>2 ^ (- 149)\<close> when \<open>e < - 126\<close>). \<open>f32 x\<close> is the nearest of
  them, the one with the even multiplier in a tie. (Rounding to infinity, from
  \<open>2 ^ 128\<close> on, is not represented; the hyperbolic tangent stays below 1.) The
  library's hyperbolic tangent is taken to be correctly rounded.
\<close>

definition round_even :: "real \<Rightarrow> int" where
  "round_even x =
     (let f = \<lfloor>x\<rfloor>; d = x - of_int f
      in if d < 1 / 2 then f else if 1 / 2 < d then f + 1 else if even f then f else f + 1)"

definition f32 :: "real \<Rightarrow> real" where
  "f32 x =
     (if x = 0 then 0
      else let u = 2 powr of_int (max (- 126) \<lfloor>log 2 \<bar>x\<bar>\<rfloor> - 23)
           in of_int (round_even (x / u)) * u)"

definition tanh_f32 :: "real \<Rightarrow> real" where
  "tanh_f32 x = f32 (tanh x)"

text \<open>The output size of a convolution along one spatial dimension.\<close>

definition conv_out :: "nat \<Rightarrow> nat \<Rightarrow> nat \<Rightarrow> nat \<Rightarrow> nat" where
  "conv_out k s p h = (h + 2 * p - k) div s + 1"

definition conv2d :: "nat \<Rightarrow> nat \<Rightarrow> nat \<Rightarrow> nat \<Rightarrow> nat \<Rightarrow> numeric \<Rightarrow> tensor \<Rightarrow> error + tensor" where
  "conv2d cin cout k s p w t =
     (case shape t of
        [n, c, h, wd] \<Rightarrow>
          if c = cin \<and> k \<le> h + 2 * p \<and> k \<le> wd + 2 * p
          then Inr (filled [n, cout, conv_out k s p h, conv_out k s p wd] (w t))
          else Inl RuntimeError
      | _ \<Rightarrow> Inl RuntimeError)"

definition conv_transpose2d ::
  "nat \<Rightarrow> nat \<Rightarrow> nat \<Rightarrow> nat \<Rightarrow> nat \<Rightarrow> nat \<Rightarrow> numeric \<Rightarrow> tensor \<Rightarrow> error + tensor" where
  "conv_transpose2d cin cout k s p op w t =
     (case shape t of
        [n, c, h, wd] \<Rightarrow>
          if c = cin \<and> 0 < h \<and> 0 < wd
             \<and> 2 * p < (h - 1) * s + k + op \<and> 2 * p < (wd - 1) * s + k + op
          then Inr (filled [n, cout, (h - 1) * s + k + op - 2 * p, (wd - 1) * s + k + op - 2 * p]
                      (w t))
          else Inl RuntimeError
      | _ \<Rightarrow> Inl RuntimeError)"

definition batch_norm2d :: "nat \<Rightarrow> numeric \<Rightarrow> tensor \<Rightarrow> error + tensor" where
  "batch_norm2d c w t =
     (case shape t of
        [n, c', h, wd] \<Rightarrow> if c' = c then Inr (filled (shape t) (w t)) else Inl RuntimeError
      | _ \<Rightarrow> Inl ValueError)"

definition linear :: "nat \<Rightarrow> nat \<Rightarrow> numeric \<Rightarrow> tensor \<Rightarrow> error + tensor" where
  "linear fin fout w t =
     (if shape t \<noteq> [] \<and> last (shape t) = fin
      then Inr (filled (butlast (shape t) @ [fout]) (w t))
      else Inl RuntimeError)"

text \<open>Calling a module; a \<open>Sequential\<close> feeds each module's output to the next.\<close>

fun call :: "nn_module \<Rightarrow> tensor \<Rightarrow> error + tensor"
  and call_seq :: "nn_module list \<Rightarrow> tensor \<Rightarrow> error + tensor" where
  "call (Conv2d cin cout k s p w) t = conv2d cin cout k s p w t"
| "call (ConvTranspose2d cin cout k s p op w) t = conv_transpose2d cin cout k s p op w t"
| "call (BatchNorm2d c w) t = batch_norm2d c w t"
| "call LeakyReLU t = Inr (tmap leaky_relu t)"
| "call Tanh t = Inr (tmap tanh_f32 t)"
| "call (Linear fin fout w) t = linear fin fout w t"
| "call (Sequential ms) t = call_seq ms t"
| "call_seq [] t = Inr t"
| "call_seq (m # ms) t = bindE (call m t) (call_seq ms)"

fun init_draws :: "nn_module \<Rightarrow> nat"
  and init_draws_seq :: "nn_module list \<Rightarrow> nat" where
  "init_draws (Conv2d cin cout k s p w) = cout * cin * k * k + cout"
| "init_draws (ConvTranspose2d cin cout k s p op w) = cin * cout * k * k + cout"
| "init_draws (BatchNorm2d c w) = 0"
| "init_draws LeakyReLU = 0"
| "init_draws Tanh = 0"
| "init_draws (Linear fin fout w) = fout * fin + fout"
| "init_draws (Sequential ms) = init_draws_seq ms"
| "init_draws_seq [] = 0"
| "init_draws_seq (m # ms) = init_draws m + init_draws_seq ms"

section \<open>The class \<^verbatim>\<open>IWAE\<close>\<close>

record IWAE =
  latent_dim :: nat
  num_samples :: int
  encoder :: nn_module
  fc_mu :: nn_module
  fc_var :: nn_module
  decoder_input :: nn_module
  decoder :: nn_module
  final_layer :: nn_module

subsection \<open>\<^verbatim>\<open>__init__\<close>\<close>

text \<open>
  The constructor receives \<^verbatim>\<open>hidden_dims\<close> as a reference to a list object
  that the caller may hold too, and the layers it creates draw their initial
  parameters from the library's global random generator, which the caller
  shares as well. The state that the constructor works on, and returns as it
  leaves it behind, has these two parts: \<open>lists\<close>, the heap of list objects (the
  address of an object is its position), and \<open>drawn\<close>, the position of the
  generator in its stream, that is, the number of values drawn from it so far.
  \<open>None\<close> stands for the default argument: the constructor then allocates the
  list \<^verbatim>\<open>[32, 64, 128, 256, 512]\<close> itself.

  The values that the draws give, and with them what each new layer computes,
  are the parameter \<open>W\<close>: \<open>W a i j\<close> is what layer \<open>j\<close> of block \<open>i\<close> under the
  attribute \<open>a\<close> computes.
\<close>

record world =
  lists :: "nat list list"
  drawn :: nat

type_synonym weights = "string \<Rightarrow> nat \<Rightarrow> nat \<Rightarrow> numeric"

text \<open>Lines 27 to 35: one block per entry, \<^verbatim>\<open>in_channels\<close> reassigned each round.\<close>

fun encoder_modules :: "weights \<Rightarrow> nat \<Rightarrow> nat \<Rightarrow> nat list \<Rightarrow> nn_module list" where
  "encoder_modules W i in_channels [] = []"
| "encoder_modules W i in_channels (h_dim # hs) =
     Sequential [Conv2d in_channels h_dim 3 2 1 (W ''encoder'' i 0),
                 BatchNorm2d h_dim (W ''encoder'' i 1),
                 LeakyReLU]
       # encoder_modules W (Suc i) h_dim hs"

text \<open>Lines 49 to 60: \<^verbatim>\<open>for i in range(len(hidden_dims) - 1)\<close>.\<close>

definition decoder_modules :: "weights \<Rightarrow> nat list \<Rightarrow> nn_module list" where
  "decoder_modules W hidden_dims =
     map (\<lambda>i. Sequential [ConvTranspose2d (hidden_dims ! i) (hidden_dims ! (i + 1)) 3 2 1 1
                             (W ''decoder'' i 0),
                           BatchNorm2d (hidden_dims ! (i + 1)) (W ''decoder'' i 1),
                           LeakyReLU])
         [0..<length hidden_dims - 1]"

text \<open>\<^verbatim>\<open>xs[-1]\<close> raises \<^verbatim>\<open>IndexError\<close> on the empty list.\<close>

definition py_last :: "'a list \<Rightarrow> error + 'a" where
  "py_last xs = (if xs = [] then Inl IndexError else Inr (last xs))"

definition IWAE_init ::
  "weights \<Rightarrow> world \<Rightarrow> nat \<Rightarrow> nat \<Rightarrow> nat option \<Rightarrow> int \<Rightarrow> error + (IWAE \<times> world)" where
  "IWAE_init W w in_channels latent_dim' hidden_dims num_samples' =
     (let (h1, a) = (case hidden_dims of
                       None \<Rightarrow> (lists w @ [[32, 64, 128, 256, 512]], length (lists w))
                     | Some a \<Rightarrow> (lists w, a));
          encoder' = Sequential (encoder_modules W 0 in_channels (h1 ! a))
      in bindE (py_last (h1 ! a)) (\<lambda>l.
           let fc_mu' = Linear (l * 4) latent_dim' (W ''fc_mu'' 0 0);
               fc_var' = Linear (l * 4) latent_dim' (W ''fc_var'' 0 0);
               decoder_input' = Linear latent_dim' (l * 4) (W ''decoder_input'' 0 0);
               h2 = h1[a := rev (h1 ! a)];
               decoder' = Sequential (decoder_modules W (h2 ! a))
           in bindE (py_last (h2 ! a)) (\<lambda>l'.
                let final_layer' = Sequential
                      [ConvTranspose2d l' l' 3 2 1 1 (W ''final_layer'' 0 0),
                       BatchNorm2d l' (W ''final_layer'' 0 1),
                       LeakyReLU,
                       Conv2d l' 3 3 1 1 (W ''final_layer'' 0 3),
                       Tanh]
                in Inr (\<lparr>latent_dim = latent_dim', num_samples = num_samples',
                         encoder = encoder', fc_mu = fc_mu', fc_var = fc_var',
                         decoder_input = decoder_input', decoder = decoder',
                         final_layer = final_layer'\<rparr>,
                        \<lparr>lists = h2,
                         drawn = drawn w + init_draws encoder' + init_draws fc_mu'
                                 + init_draws fc_var' + init_draws decoder_input'
                                 + init_draws decoder' + init_draws final_layer'\<rparr>))))"

subsection \<open>\<^verbatim>\<open>encode\<close>, \<^verbatim>\<open>decode\<close>, \<^verbatim>\<open>reparameterize\<close>, \<^verbatim>\<open>forward\<close>\<close>

definition encode :: "IWAE \<Rightarrow> tensor \<Rightarrow> error + (tensor \<times> tensor)" where
  "encode self input =
     bindE (call (encoder self) input) (\<lambda>result.
     bindE (flatten1 result) (\<lambda>result.
     bindE (call (fc_mu self) result) (\<lambda>mu.
     bindE (call (fc_var self) result) (\<lambda>log_var.
     Inr (mu, log_var)))))"

definition decode :: "IWAE \<Rightarrow> tensor \<Rightarrow> error + tensor" where
  "decode self z =
     bindE (call (decoder_input self) z) (\<lambda>result.
     bindE (view_512_2_2 result) (\<lambda>result.
     bindE (call (decoder self) result) (\<lambda>result.
     call (final_layer self) result)))"

text \<open>
  \<^verbatim>\<open>torch.randn_like(std)\<close> draws one standard-normal number per entry of
  \<open>std\<close>; the draws are the parameter \<open>noise\<close> (the \<open>i\<close>-th draw is \<open>noise i\<close>).
  These functions return tensors only; how far they move the generator is not
  part of what they return.
\<close>

definition reparameterize :: "IWAE \<Rightarrow> (nat \<Rightarrow> real) \<Rightarrow> tensor \<Rightarrow> tensor \<Rightarrow> error + tensor" where
  "reparameterize self noise mu logvar =
     (let std = tmap exp (tmap (\<lambda>x. 0.5 * x) logvar);
          eps = filled (shape std) noise
      in bindE (bop (*) eps std) (\<lambda>r. bop (+) r mu))"

definition forward :: "IWAE \<Rightarrow> (nat \<Rightarrow> real) \<Rightarrow> tensor \<Rightarrow> error + tensor list" where
  "forward self noise input =
     bindE (encode self input) (\<lambda>(mu, log_var).
     bindE (reparameterize self noise mu log_var) (\<lambda>z.
     bindE (bop (-) z mu) (\<lambda>d.
     bindE (bop (/) d log_var) (\<lambda>eps.
     bindE (decode self z) (\<lambda>recons.
     Inr [recons, input, mu, log_var, z, eps])))))"

subsection \<open>\<^verbatim>\<open>loss_function\<close>\<close>

text \<open>
  A name that a function reads and never assigns is looked up, each time it
  is read, in the namespace of the module (and then among Python's builtins,
  none of which is called \<^verbatim>\<open>recons_loss\<close>). An unbound name raises
  \<^verbatim>\<open>NameError\<close>. \<open>PyOther\<close> is any object that is not a tensor (a module,
  a class, a function, a type alias); arithmetic with a tensor refuses it.
\<close>

datatype pyval = PyTensor tensor | PyOther

type_synonym namespace = "string \<rightharpoonup> pyval"

definition load_global :: "namespace \<Rightarrow> string \<Rightarrow> error + tensor" where
  "load_global G name =
     (case G name of
        None \<Rightarrow> Inl (NameError name)
      | Some (PyTensor t) \<Rightarrow> Inr t
      | Some PyOther \<Rightarrow> Inl TypeError)"

text \<open>
  The namespace that lines 1 to 9 of the module build, in their order (a later
  binding replaces an earlier one). The file \<^verbatim>\<open>types_.py\<close>, whose public
  names line 5 imports, is not part of the sources at hand: its names are the
  parameter \<open>types_names\<close>.
\<close>

definition module_globals :: "namespace \<Rightarrow> namespace" where
  "module_globals types_names =
     ([''torch'' \<mapsto> PyOther, ''BaseVAE'' \<mapsto> PyOther, ''nn'' \<mapsto> PyOther, ''F'' \<mapsto> PyOther]
        ++ types_names)(''np'' \<mapsto> PyOther, ''IWAE'' \<mapsto> PyOther)"

text \<open>\<^verbatim>\<open>args[i]\<close> and \<^verbatim>\<open>kwargs['M_N']\<close>.\<close>

definition py_index :: "'a list \<Rightarrow> nat \<Rightarrow> error + 'a" where
  "py_index xs i = (if i < length xs then Inr (xs ! i) else Inl IndexError)"

definition py_getitem :: "(string \<rightharpoonup> 'a) \<Rightarrow> string \<Rightarrow> error + 'a" where
  "py_getitem d k = (case d k of None \<Rightarrow> Inl (KeyError k) | Some v \<Rightarrow> Inr v)"

text \<open>
  Lines 139 to 143: the per-sample reconstruction error and the two sums
  \<^verbatim>\<open>E_log_q_z\<close> and \<^verbatim>\<open>E_log_p_z\<close>.
\<close>

definition gauss_terms :: "tensor \<Rightarrow> error + tensor" where
  "gauss_terms x =
     bop (-) (tmap (\<lambda>v. - 0.5 * v) (tmap (\<lambda>v. v ^ 2) x))
             (tmap (\<lambda>v. 0.5 * v) (tmap ln (tmap (\<lambda>v. 2 * v) (scalar pi))))"

definition loss_terms ::
  "tensor \<Rightarrow> tensor \<Rightarrow> tensor \<Rightarrow> tensor \<Rightarrow> tensor \<Rightarrow> error + (tensor \<times> tensor \<times> tensor)" where
  "loss_terms recons input log_var z eps =
     bindE (bop (-) recons input) (\<lambda>d.
     bindE (flatten1 (tmap (\<lambda>v. v ^ 2) d)) (\<lambda>fl.
     bindE (mean_dim (- 1) fl) (\<lambda>log_p_x_z.
     bindE (gauss_terms eps) (\<lambda>q.
     bindE (bop (-) q log_var) (\<lambda>q.
     bindE (sum_dim 1 q) (\<lambda>E_log_q_z.
     bindE (gauss_terms z) (\<lambda>p.
     bindE (sum_dim 1 p) (\<lambda>E_log_p_z.
     Inr (log_p_x_z, E_log_q_z, E_log_p_z)))))))))"

text \<open>
  Lines 146 and 147: the importance weights. \<^verbatim>\<open>detach().data\<close> changes no
  entry.
\<close>

definition importance_weights :: "namespace \<Rightarrow> tensor \<Rightarrow> tensor \<Rightarrow> error + tensor" where
  "importance_weights G E_log_p_z E_log_q_z =
     bindE (load_global G ''recons_loss'') (\<lambda>recons_loss.
     bindE (bop (+) recons_loss E_log_p_z) (\<lambda>s.
     bindE (bop (-) s E_log_q_z) (\<lambda>log_weight.
     softmax 0 log_weight)))"

definition loss_function ::
  "IWAE \<Rightarrow> namespace \<Rightarrow> tensor list \<Rightarrow> (string \<rightharpoonup> real) \<Rightarrow> error + (string \<times> tensor) list" where
  "loss_function self G args kwargs =
     bindE (py_index args 0) (\<lambda>recons.
     bindE (py_index args 1) (\<lambda>input.
     bindE (py_index args 2) (\<lambda>mu.
     bindE (py_index args 3) (\<lambda>log_var.
     bindE (py_index args 4) (\<lambda>z.
     bindE (py_index args 5) (\<lambda>eps.
     bindE (py_getitem kwargs ''M_N'') (\<lambda>kld_weight.
     bindE (loss_terms recons input log_var z eps) (\<lambda>(log_p_x_z, E_log_q_z, E_log_p_z).
     bindE (importance_weights G E_log_p_z E_log_q_z) (\<lambda>weight.
     bindE (bop (-) E_log_q_z E_log_p_z) (\<lambda>d.
     bindE (mean_dim 0 d) (\<lambda>kld_loss.
     bindE (load_global G ''recons_loss'') (\<lambda>recons_loss.
     bindE (bop (+) recons_loss (tmap (\<lambda>v. kld_weight * v) kld_loss)) (\<lambda>s.
     bindE (bop (*) weight s) (\<lambda>ws.
     bindE (sum_dim 0 ws) (\<lambda>loss.
     bindE (load_global G ''recons_loss'') (\<lambda>recons_loss.
     bindE (mean_dim 0 recons_loss) (\<lambda>rl.
     Inr [(''loss'', loss), (''Reconstruction Loss'', rl),
          (''KLD'', tmap uminus kld_loss)])))))))))))))))))"

section \<open>The Gaussian density\<close>

text \<open>
  The density of the Gaussian with mean \<open>m\<close> and variance \<open>v\<close> at \<open>x\<close>. It is
  not part of the code: it is the distribution that the statement about
  \<^verbatim>\<open>reparameterize\<close> names, written down so that the statement can be checked
  against the code.
\<close>

definition gaussian_pdf :: "real \<Rightarrow> real \<Rightarrow> real \<Rightarrow> real" where
  "gaussian_pdf m v x = exp (- ((x - m) ^ 2 / (2 * v))) / sqrt (2 * pi * v)"

section \<open>Basic facts\<close>

lemma bindE_Inl [simp]: "bindE (Inl e) f = Inl e"
  by (simp add: bindE_def)

lemma bindE_Inr [simp]: "bindE (Inr v) f = f v"
  by (simp add: bindE_def)

lemma bindE_eq_Inr: "bindE r f = Inr y \<longleftrightarrow> (\<exists>v. r = Inr v \<and> f v = Inr y)"
  by (cases r) simp_all

lemma load_global_unbound: "G name = None \<Longrightarrow> load_global G name = Inl (NameError name)"
  by (simp add: load_global_def)

lemma module_globals_recons_loss:
  "module_globals types_names ''recons_loss'' = types_names ''recons_loss''"
  by (simp add: module_globals_def map_add_def split: option.splits)

lemma py_last_Inr: "xs \<noteq> [] \<Longrightarrow> py_last xs = Inr (last xs)"
  by (simp add: py_last_def)

lemma shape_filled [simp]: "shape (filled s g) = s"
  by (simp add: filled_def)

lemma data_filled [simp]: "data (filled s g) = map g [0..<numel s]"
  by (simp add: filled_def)

lemma shape_tmap [simp]: "shape (tmap f t) = shape t"
  by (simp add: tmap_def)

lemma data_tmap [simp]: "data (tmap f t) = map f (data t)"
  by (simp add: tmap_def)

lemma bop_same:
  "shape a = shape b \<Longrightarrow>
   bop f a b = Inr \<lparr>shape = shape a, data = map2 f (data a) (data b)\<rparr>"
  by (simp add: bop_def)









lemma init_default_returns:
  "\<exists>self h. IWAE_init W \<lparr>lists = [], drawn = g\<rparr> c l None k = Inr (self, h)"
  by (simp add: IWAE_init_def Let_def py_last_def)

section \<open>The loss function\<close>

text \<open>
  C1. The claim: for every tuple of forward outputs and every weight
  coefficient \<^verbatim>\<open>M_N\<close>, \<^verbatim>\<open>loss_function\<close> returns a dictionary and does not
  raise. The code does not: line 139 binds the reconstruction error to
  \<^verbatim>\<open>log_p_x_z\<close>, and line 146 reads \<^verbatim>\<open>recons_loss\<close>, a name that nothing
  binds. For a model built with the default arguments, zero tensors of the
  shapes \<^verbatim>\<open>forward\<close> produces for one 64 by 64 image and \<^verbatim>\<open>M_N = 0.005\<close>, the
  call raises \<^verbatim>\<open>NameError\<close>.
\<close>

theorem loss_function_raises_NameError:
  "case IWAE_init (\<lambda>a i j t k. 0) \<lparr>lists = [], drawn = 0\<rparr> 3 2 None 5 of
     Inl e \<Rightarrow> False
   | Inr (self, h) \<Rightarrow>
       loss_function self (module_globals [''Tensor'' \<mapsto> PyOther, ''List'' \<mapsto> PyOther])
         [\<lparr>shape = [1, 3, 64, 64], data = replicate 12288 0\<rparr>,
          \<lparr>shape = [1, 3, 64, 64], data = replicate 12288 0\<rparr>,
          \<lparr>shape = [1, 2], data = [0, 0]\<rparr>,
          \<lparr>shape = [1, 2], data = [0, 0]\<rparr>,
          \<lparr>shape = [1, 2], data = [0, 0]\<rparr>,
          \<lparr>shape = [1, 2], data = [0, 0]\<rparr>]
         [''M_N'' \<mapsto> 0.005]
       = Inl (NameError ''recons_loss'')"
  by (simp add: IWAE_init_def Let_def py_last_def loss_function_def py_index_def py_getitem_def
      loss_terms_def bop_def flatten1_def tmap_def mean_dim_def sum_dim_def reduce_dim_def
      norm_dim_def gauss_terms_def scalar_def broadcast_shapes_def importance_weights_def
      load_global_unbound module_globals_recons_loss)

text \<open>
  C2. The claim: \<^verbatim>\<open>loss_function\<close> computes the reconstruction error and the
  two log-densities, forms the importance weights by a softmax over the batch,
  and returns the weighted sum as the loss. The code computes the first three
  and then stops at line 146: whenever the module binds no \<^verbatim>\<open>recons_loss\<close>,
  no arguments at all make \<^verbatim>\<open>loss_function\<close> return a result.
\<close>

theorem loss_function_returns_nothing:
  "G ''recons_loss'' = None \<Longrightarrow> loss_function self G args kwargs \<noteq> Inr result"
  unfolding loss_function_def importance_weights_def
  by (auto simp: bindE_eq_Inr load_global_unbound split: prod.splits)

theorem loss_function_returns_nothing_witness:
  "module_globals [''Tensor'' \<mapsto> PyOther, ''List'' \<mapsto> PyOther] ''recons_loss'' = None \<and>
   (case IWAE_init (\<lambda>a i j t k. 0) \<lparr>lists = [], drawn = 0\<rparr> 3 2 None 5 of
      Inl e \<Rightarrow> False
    | Inr (self, h) \<Rightarrow>
        loss_function self (module_globals [''Tensor'' \<mapsto> PyOther, ''List'' \<mapsto> PyOther])
          [\<lparr>shape = [1, 3, 64, 64], data = replicate 12288 0\<rparr>,
           \<lparr>shape = [1, 3, 64, 64], data = replicate 12288 0\<rparr>,
           \<lparr>shape = [1, 2], data = [0, 0]\<rparr>,
           \<lparr>shape = [1, 2], data = [0, 0]\<rparr>,
           \<lparr>shape = [1, 2], data = [0, 0]\<rparr>,
           \<lparr>shape = [1, 2], data = [0, 0]\<rparr>]
          [''M_N'' \<mapsto> 0.005]
        \<noteq> Inr [])"
proof -
  have g: "module_globals [''Tensor'' \<mapsto> PyOther, ''List'' \<mapsto> PyOther] ''recons_loss'' = None"
    by (simp add: module_globals_recons_loss)
  have i: "\<exists>self h. IWAE_init (\<lambda>a i j t k. 0) \<lparr>lists = [], drawn = 0\<rparr> 3 2 None 5 = Inr (self, h)"
    by (rule init_default_returns)
  show ?thesis
    using g i
      loss_function_returns_nothing
        [where G = "module_globals [''Tensor'' \<mapsto> PyOther, ''List'' \<mapsto> PyOther]"]
    by auto
qed

text \<open>
  C8. The claim: the importance weights of \<^verbatim>\<open>loss_function\<close> are one
  nonnegative scalar per sample and sum to one over the batch. The code never
  has such weights: lines 146 and 147, which would compute them, raise
  \<^verbatim>\<open>NameError\<close> for every pair of log-densities, since the first thing line
  146 does is read the unbound name \<^verbatim>\<open>recons_loss\<close>.
\<close>

theorem importance_weights_never_computed:
  "G ''recons_loss'' = None \<Longrightarrow>
   importance_weights G E_log_p_z E_log_q_z = Inl (NameError ''recons_loss'')"
  by (simp add: importance_weights_def load_global_unbound)

theorem importance_weights_never_computed_witness:
  "module_globals Map.empty ''recons_loss'' = None \<and>
   importance_weights (module_globals Map.empty)
     \<lparr>shape = [2], data = [- 1, - 2]\<rparr> \<lparr>shape = [2], data = [- 3, - 1]\<rparr>
   = Inl (NameError ''recons_loss'')"
proof -
  have g: "module_globals Map.empty ''recons_loss'' = None"
    by (simp add: module_globals_recons_loss)
  show ?thesis
    using g importance_weights_never_computed [where G = "module_globals Map.empty"] by simp
qed

section \<open>The constructor\<close>





text \<open>
  C9. \<^verbatim>\<open>num_samples\<close> is stored and never used: two models built from the
  same arguments except for \<^verbatim>\<open>num_samples\<close> store their own values, and
  \<^verbatim>\<open>forward\<close> (which draws one latent per input, by its single call of
  \<^verbatim>\<open>reparameterize\<close>) and \<^verbatim>\<open>loss_function\<close> give the same result on both,
  for every input, noise, and arguments.
\<close>

lemma init_num_samples:
  "IWAE_init W h c l hds k = Inr (m, h') \<Longrightarrow>
   IWAE_init W h c l hds k' = Inr (m\<lparr>num_samples := k'\<rparr>, h')"
  by (auto simp: IWAE_init_def Let_def bindE_eq_Inr split: prod.splits)

lemma forward_num_samples: "forward (m\<lparr>num_samples := k\<rparr>) = forward m"
  by (intro ext) (simp add: forward_def encode_def decode_def reparameterize_def)

lemma loss_num_samples: "loss_function (m\<lparr>num_samples := k\<rparr>) = loss_function m"
  by (intro ext) (simp add: loss_function_def)

theorem num_samples_unused:
  assumes "IWAE_init W h c l hds k1 = Inr (m1, h1)"
    and "IWAE_init W h c l hds k2 = Inr (m2, h2)"
  shows "num_samples m1 = k1 \<and> num_samples m2 = k2 \<and>
         forward m1 noise x = forward m2 noise x \<and>
         loss_function m1 G args kwargs = loss_function m2 G args kwargs"
proof -
  from init_num_samples [OF assms(1), of k2] assms(2) have m2: "m2 = m1\<lparr>num_samples := k2\<rparr>"
    by simp
  from assms have "num_samples m1 = k1" "num_samples m2 = k2"
    by (auto simp: IWAE_init_def Let_def bindE_eq_Inr split: prod.splits)
  then show ?thesis
    by (simp add: m2 forward_num_samples loss_num_samples)
qed

theorem num_samples_unused_witness:
  "\<exists>m1 h1 m2 h2.
     IWAE_init (\<lambda>a i j t k. 0) \<lparr>lists = [], drawn = 0\<rparr> 3 2 None 5 = Inr (m1, h1) \<and>
     IWAE_init (\<lambda>a i j t k. 0) \<lparr>lists = [], drawn = 0\<rparr> 3 2 None 1 = Inr (m2, h2) \<and>
     num_samples m1 = 5 \<and> num_samples m2 = 1 \<and>
     forward m1 (\<lambda>i. 1) \<lparr>shape = [1, 3, 64, 64], data = replicate 12288 0\<rparr>
       = forward m2 (\<lambda>i. 1) \<lparr>shape = [1, 3, 64, 64], data = replicate 12288 0\<rparr> \<and>
     loss_function m1 Map.empty [] Map.empty = loss_function m2 Map.empty [] Map.empty"
proof -
  obtain m1 h1 where a: "IWAE_init (\<lambda>a i j t k. 0) \<lparr>lists = [], drawn = 0\<rparr> 3 2 None 5 = Inr (m1, h1)"
    using init_default_returns by blast
  obtain m2 h2 where b: "IWAE_init (\<lambda>a i j t k. 0) \<lparr>lists = [], drawn = 0\<rparr> 3 2 None 1 = Inr (m2, h2)"
    using init_default_returns by blast
  show ?thesis
    using a b num_samples_unused [OF a b] by blast
qed

section \<open>Reparameterization\<close>

lemma exp_half_sq': "(exp (l / 2 :: real)) ^ 2 = exp l"
proof -
  have "(exp (l / 2)) ^ 2 = exp (l / 2 + l / 2)"
    unfolding power2_eq_square exp_add ..
  then show ?thesis by simp
qed

lemma exp_half_sq: "(exp (0.5 * l :: real)) ^ 2 = exp l"
  using exp_half_sq' [of l] by simp

lemma sqrt_exp: "sqrt (exp (l::real)) = exp (0.5 * l)"
proof -
  have "sqrt ((exp (0.5 * l)) ^ 2) = exp (0.5 * l)" by simp
  then show ?thesis by (simp only: exp_half_sq)
qed

text \<open>
  Change of variables: under \<open>e \<mapsto> e \<cdot> exp (l / 2) + m\<close> the standard normal
  density becomes the density of the Gaussian with mean \<open>m\<close> and variance
  \<open>exp l\<close>.
\<close>

lemma gaussian_affine:
  "gaussian_pdf m (exp l) (e * exp (0.5 * l) + m) * exp (0.5 * l) = gaussian_pdf 0 1 e"
proof -
  have a: "(e * exp (0.5 * l) + m - m) ^ 2 / (2 * exp l) = e ^ 2 / 2"
    by (simp add: power_mult_distrib exp_half_sq')
  have b: "sqrt (2 * pi * exp l) = sqrt (2 * pi) * exp (0.5 * l)"
    by (simp add: real_sqrt_mult sqrt_exp)
  have "gaussian_pdf m (exp l) (e * exp (0.5 * l) + m) =
        exp (- (e ^ 2 / 2)) / (sqrt (2 * pi) * exp (0.5 * l))"
    unfolding gaussian_pdf_def b a ..
  then show ?thesis
    by (simp add: gaussian_pdf_def)
qed

lemma reparam_deriv_mu: "((\<lambda>m. e * exp (0.5 * l) + m) has_real_derivative 1) (at m)"
  by (auto intro!: derivative_eq_intros)

lemma reparam_deriv_logvar:
  "((\<lambda>l. e * exp (0.5 * l) + m) has_real_derivative e * (0.5 * exp (0.5 * l))) (at l)"
  by (auto intro!: derivative_eq_intros)

text \<open>
  C7. For a mean and a log-variance tensor of the same shape (as \<^verbatim>\<open>encode\<close>
  returns them) and any drawn noise, \<^verbatim>\<open>reparameterize\<close> returns the tensor of
  that shape whose \<open>i\<close>-th entry is \<open>eps\<^sub>i \<cdot> exp (0.5 \<cdot> logvar\<^sub>i) + mu\<^sub>i\<close>, where
  \<open>eps\<^sub>i\<close> is the \<open>i\<close>-th draw. Each entry is differentiable in the mean and in
  the log-variance. It is an increasing affine image of the draw, with a
  positive scale whose square is \<open>exp logvar\<^sub>i\<close>, and the Gaussian density with
  mean \<open>mu\<^sub>i\<close> and variance \<open>exp logvar\<^sub>i\<close> at the entry, times the scale, is the
  standard normal density at the draw: the entry has the Gaussian law
  \<open>N(mu\<^sub>i, exp logvar\<^sub>i)\<close> when the draw is standard normal.
\<close>

theorem reparameterize_formula:
  assumes "shape mu = shape logvar" and "wf_tensor mu" and "wf_tensor logvar"
  shows "\<exists>z. reparameterize self noise mu logvar = Inr z \<and> shape z = shape mu \<and>
           length (data z) = numel (shape mu) \<and>
           (\<forall>i<numel (shape mu).
              data z ! i = noise i * exp (0.5 * (data logvar ! i)) + data mu ! i \<and>
              ((\<lambda>m. noise i * exp (0.5 * (data logvar ! i)) + m) has_real_derivative 1)
                (at (data mu ! i)) \<and>
              ((\<lambda>l. noise i * exp (0.5 * l) + data mu ! i) has_real_derivative
                 noise i * (0.5 * exp (0.5 * (data logvar ! i)))) (at (data logvar ! i)) \<and>
              0 < exp (0.5 * (data logvar ! i)) \<and>
              (exp (0.5 * (data logvar ! i))) ^ 2 = exp (data logvar ! i) \<and>
              gaussian_pdf (data mu ! i) (exp (data logvar ! i)) (data z ! i)
                * exp (0.5 * (data logvar ! i)) = gaussian_pdf 0 1 (noise i))"
proof -
  let ?n = "numel (shape mu)"
  let ?z = "\<lparr>shape = shape mu,
              data = map2 (+) (map2 (*) (map noise [0..<?n])
                                  (map exp (map (\<lambda>x. 0.5 * x) (data logvar))))
                          (data mu)\<rparr>"
  have len: "length (data mu) = ?n" "length (data logvar) = ?n"
    using assms by (simp_all add: wf_tensor_def)
  have r: "reparameterize self noise mu logvar = Inr ?z"
    using assms(1) by (simp add: reparameterize_def Let_def bop_same)
  have e: "data ?z ! i = noise i * exp (0.5 * (data logvar ! i)) + data mu ! i" if "i < ?n" for i
    using that len by simp
  show ?thesis
    apply (rule exI [of _ ?z])
    apply (intro conjI allI impI r)
    subgoal by simp
    subgoal by (simp add: len)
    subgoal for i using e [of i] by simp
    subgoal by (rule reparam_deriv_mu)
    subgoal by (rule reparam_deriv_logvar)
    subgoal by simp
    subgoal by (rule exp_half_sq)
    subgoal for i
      using e [of i] gaussian_affine [of "data mu ! i" "data logvar ! i" "noise i"] by simp
    done
qed

theorem reparameterize_formula_witness:
  "\<exists>self h. IWAE_init (\<lambda>a i j t k. 0) \<lparr>lists = [], drawn = 0\<rparr> 3 2 None 5 = Inr (self, h) \<and>
     shape \<lparr>shape = [1, 2], data = [0, 1]\<rparr> = shape \<lparr>shape = [1, 2], data = [0, 2]\<rparr> \<and>
     wf_tensor \<lparr>shape = [1, 2], data = [0, 1]\<rparr> \<and>
     wf_tensor \<lparr>shape = [1, 2], data = [0, 2]\<rparr> \<and>
     (\<exists>z. reparameterize self (\<lambda>i. 1) \<lparr>shape = [1, 2], data = [0, 1]\<rparr>
             \<lparr>shape = [1, 2], data = [0, 2]\<rparr> = Inr z \<and>
          shape z = [1, 2] \<and> data z ! 0 = 1 \<and> data z ! 1 = exp 1 + 1)"
proof -
  obtain self h where a: "IWAE_init (\<lambda>a i j t k. 0) \<lparr>lists = [], drawn = 0\<rparr> 3 2 None 5 = Inr (self, h)"
    using init_default_returns by blast
  have w: "wf_tensor \<lparr>shape = [1, 2], data = [0, 1]\<rparr>"
    "wf_tensor \<lparr>shape = [1, 2], data = [0, 2]\<rparr>"
    by (simp_all add: wf_tensor_def numel_def)
  have s: "shape \<lparr>shape = [1, 2], data = [0, 1::real]\<rparr>
           = shape \<lparr>shape = [1, 2], data = [0, 2::real]\<rparr>"
    by simp
  obtain z where z: "reparameterize self (\<lambda>i. 1) \<lparr>shape = [1, 2], data = [0, 1]\<rparr>
             \<lparr>shape = [1, 2], data = [0, 2]\<rparr> = Inr z"
    "shape z = [1, 2]"
    "\<forall>i<2. data z ! i = 1 * exp (0.5 * ([0, 2] ! i)) + [0, 1] ! i"
    using reparameterize_formula [OF s w, of self "\<lambda>i. 1"]
    by (auto simp: numel_def)
  from z(3) have "data z ! 0 = 1" "data z ! 1 = exp 1 + 1"
    by (simp_all add: nth_Cons')
  with a w z(1,2) show ?thesis
    by auto
qed

section \<open>Shapes through the network\<close>

lemma encoder_block:
  assumes "shape t = [n, c, h, wd]" "0 < h" "0 < wd"
  shows "\<exists>t'. call (Sequential [Conv2d c co 3 2 1 w, BatchNorm2d co w', LeakyReLU]) t = Inr t' \<and>
              shape t' = [n, co, conv_out 3 2 1 h, conv_out 3 2 1 wd]"
  using assms by (simp add: conv2d_def batch_norm2d_def conv_out_def)

lemma encoder_modules_shape:
  "shape t = [n, c, h, wd] \<Longrightarrow> 0 < h \<Longrightarrow> 0 < wd \<Longrightarrow>
   \<exists>t'. call_seq (encoder_modules W i c hds) t = Inr t' \<and>
        shape t' = [n, last (c # hds), (conv_out 3 2 1 ^^ length hds) h, (conv_out 3 2 1 ^^ length hds) wd]"
proof (induction hds arbitrary: t i c h wd)
  case Nil
  then show ?case by simp
next
  case (Cons a hds)
  from encoder_block [OF Cons.prems, of a "W ''encoder'' i 0" "W ''encoder'' i 1"]
  obtain t1 where t1: "call (Sequential [Conv2d c a 3 2 1 (W ''encoder'' i 0),
       BatchNorm2d a (W ''encoder'' i 1), LeakyReLU]) t = Inr t1"
    "shape t1 = [n, a, conv_out 3 2 1 h, conv_out 3 2 1 wd]"
    by auto
  have "0 < conv_out 3 2 1 h" "0 < conv_out 3 2 1 wd" by (simp_all add: conv_out_def)
  from Cons.IH [OF t1(2) this, of "Suc i"] t1(1)
  show ?case
    by (auto simp: funpow_swap1 simp del: call.simps)
qed

lemma init_fields:
  assumes "IWAE_init W hp c ld hidden_dims ns = Inr (self, hp')"
    and "case hidden_dims of None \<Rightarrow> True | Some a \<Rightarrow> a < length (lists hp)"
    and "hds = (case hidden_dims of None \<Rightarrow> [32, 64, 128, 256, 512] | Some a \<Rightarrow> lists hp ! a)"
  shows "hds \<noteq> []" and "latent_dim self = ld"
    and "encoder self = Sequential (encoder_modules W 0 c hds)"
    and "fc_mu self = Linear (last hds * 4) ld (W ''fc_mu'' 0 0)"
    and "fc_var self = Linear (last hds * 4) ld (W ''fc_var'' 0 0)"
    and "decoder_input self = Linear ld (last hds * 4) (W ''decoder_input'' 0 0)"
    and "decoder self = Sequential (decoder_modules W (rev hds))"
    and "final_layer self = Sequential
           [ConvTranspose2d (hd hds) (hd hds) 3 2 1 1 (W ''final_layer'' 0 0),
            BatchNorm2d (hd hds) (W ''final_layer'' 0 1),
            LeakyReLU,
            Conv2d (hd hds) 3 3 1 1 (W ''final_layer'' 0 3),
            Tanh]"
  using assms
  by (auto simp: IWAE_init_def Let_def py_last_def bindE_eq_Inr last_rev
      split: option.splits if_splits)

lemma encode_returns:
  assumes init: "IWAE_init W hp c ld hidden_dims ns = Inr (self, hp')"
    and ref: "case hidden_dims of None \<Rightarrow> True | Some a \<Rightarrow> a < length (lists hp)"
    and hds: "hds = (case hidden_dims of None \<Rightarrow> [32, 64, 128, 256, 512] | Some a \<Rightarrow> lists hp ! a)"
    and sh: "shape input = [n, c, h, wd]" and pos: "0 < h" "0 < wd"
    and acc: "(conv_out 3 2 1 ^^ length hds) h * (conv_out 3 2 1 ^^ length hds) wd = 4"
  shows "\<exists>fl. encode self input =
           Inr (filled [n, ld] (W ''fc_mu'' 0 0 fl), filled [n, ld] (W ''fc_var'' 0 0 fl))"
proof -
  note f = init_fields [OF init ref hds]
  from encoder_modules_shape [OF sh pos, of W 0 hds]
  obtain t1 where t1: "call_seq (encoder_modules W 0 c hds) input = Inr t1"
    "shape t1 = [n, last (c # hds), (conv_out 3 2 1 ^^ length hds) h, (conv_out 3 2 1 ^^ length hds) wd]"
    by auto
  from f(1) have l: "last (c # hds) = last hds" by simp
  let ?fl = "\<lparr>shape = [n, last hds * 4], data = data t1\<rparr>"
  have fl: "flatten1 t1 = Inr ?fl"
    using t1(2) acc f(1) by (simp add: flatten1_def mult.assoc)
  show ?thesis
    apply (rule exI [of _ ?fl])
    apply (simp add: encode_def f t1(1) fl linear_def)
    done
qed


lemma call_seq_append: "call_seq (xs @ ys) t = bindE (call_seq xs t) (call_seq ys)"
proof (induction xs arbitrary: t)
  case Nil
  show ?case by simp
next
  case (Cons x xs)
  show ?case
    by (cases "call x t") (simp_all add: Cons.IH del: call.simps)
qed

lemma decoder_block:
  assumes "shape t = [n, ci, h, wd]" "0 < h" "0 < wd"
  shows "\<exists>t'. call (Sequential [ConvTranspose2d ci co 3 2 1 1 w, BatchNorm2d co w', LeakyReLU]) t
                = Inr t' \<and> shape t' = [n, co, 2 * h, 2 * wd]"
proof -
  have "(h - 1) * 2 + 3 + 1 - 2 * 1 = 2 * h" "(wd - 1) * 2 + 3 + 1 - 2 * 1 = 2 * wd"
    using assms by simp_all
  with assms show ?thesis
    by (simp add: conv_transpose2d_def batch_norm2d_def)
qed

lemma decoder_prefix:
  assumes "shape t = [n, r ! 0, h, wd]" "0 < h" "0 < wd"
  shows "j < length r \<Longrightarrow>
    \<exists>t'. call_seq (map (\<lambda>i. Sequential
              [ConvTranspose2d (r ! i) (r ! (i + 1)) 3 2 1 1 (W ''decoder'' i 0),
               BatchNorm2d (r ! (i + 1)) (W ''decoder'' i 1), LeakyReLU]) [0..<j]) t = Inr t' \<and>
         shape t' = [n, r ! j, 2 ^ j * h, 2 ^ j * wd]"
proof (induction j)
  case 0
  with assms show ?case by simp
next
  case (Suc j)
  then obtain t1 where t1: "call_seq (map (\<lambda>i. Sequential
              [ConvTranspose2d (r ! i) (r ! (i + 1)) 3 2 1 1 (W ''decoder'' i 0),
               BatchNorm2d (r ! (i + 1)) (W ''decoder'' i 1), LeakyReLU]) [0..<j]) t = Inr t1"
    "shape t1 = [n, r ! j, 2 ^ j * h, 2 ^ j * wd]"
    by auto
  have p: "0 < 2 ^ j * h" "0 < 2 ^ j * wd" using assms by simp_all
  from decoder_block [OF t1(2) p, of "r ! (j + 1)" "W ''decoder'' j 0" "W ''decoder'' j 1"]
  obtain t2 where t2: "call (Sequential
              [ConvTranspose2d (r ! j) (r ! (j + 1)) 3 2 1 1 (W ''decoder'' j 0),
               BatchNorm2d (r ! (j + 1)) (W ''decoder'' j 1), LeakyReLU]) t1 = Inr t2"
    "shape t2 = [n, r ! (j + 1), 2 * (2 ^ j * h), 2 * (2 ^ j * wd)]"
    by auto
  show ?case
    using t1(1) t2 by (simp add: call_seq_append del: call.simps)
qed

lemma final_layer_returns:
  assumes "shape t = [n, l, h, wd]" "0 < h" "0 < wd"
  shows "\<exists>t'. call (Sequential
              [ConvTranspose2d l l 3 2 1 1 w0, BatchNorm2d l w1, LeakyReLU,
               Conv2d l 3 3 1 1 w3, Tanh]) t
            = Inr (tmap tanh_f32 (filled [n, 3, 2 * h, 2 * wd] (w3 t')))"
proof -
  have "(h - 1) * 2 + 3 + 1 - 2 * 1 = 2 * h" "(wd - 1) * 2 + 3 + 1 - 2 * 1 = 2 * wd"
    using assms by simp_all
  with assms show ?thesis
    by (simp add: conv_transpose2d_def batch_norm2d_def conv2d_def conv_out_def) blast
qed


lemma decode_returns:
  assumes init: "IWAE_init W hp c ld hidden_dims ns = Inr (self, hp')"
    and ref: "case hidden_dims of None \<Rightarrow> True | Some a \<Rightarrow> a < length (lists hp)"
    and hds: "hds = (case hidden_dims of None \<Rightarrow> [32, 64, 128, 256, 512] | Some a \<Rightarrow> lists hp ! a)"
    and l512: "last hds = 512"
    and sh: "shape z = [n, ld]" and pos: "0 < n"
  shows "\<exists>t'. decode self z =
           Inr (tmap tanh_f32 (filled [n, 3, 2 ^ (length hds + 1), 2 ^ (length hds + 1)]
                  (W ''final_layer'' 0 3 t')))"
proof -
  note f = init_fields [OF init ref hds]
  let ?r = "rev hds"
  let ?d = "filled [n, 2048] (W ''decoder_input'' 0 0 z)"
  have d: "call (decoder_input self) z = Inr ?d"
    using sh by (simp add: f l512 linear_def)
  let ?v = "\<lparr>shape = [n, 512, 2, 2], data = data ?d\<rparr>"
  have v: "view_512_2_2 ?d = Inr ?v"
    using pos by (simp add: view_512_2_2_def numel_def Let_def)
  have r0: "?r ! 0 = 512"
    using f(1) l512 by (simp add: hd_rev hd_conv_nth [symmetric])
  have j: "length hds - 1 < length ?r" using f(1) by simp
  from decoder_prefix [of ?v n ?r 2 2, OF _ _ _ j, of W]
  obtain t1 where t1: "call_seq (decoder_modules W ?r) ?v = Inr t1"
    "shape t1 = [n, ?r ! (length hds - 1), 2 ^ (length hds - 1) * 2, 2 ^ (length hds - 1) * 2]"
    by (auto simp: r0 decoder_modules_def)
  have lr: "?r ! (length hds - 1) = hd hds"
    using f(1) by (simp add: rev_nth hd_conv_nth)
  have p: "2 ^ (length hds - 1) * 2 = (2::nat) ^ length hds"
    using f(1) by (cases hds) simp_all
  from t1(2) lr p have s1: "shape t1 = [n, hd hds, 2 ^ length hds, 2 ^ length hds]"
    by simp
  from final_layer_returns [OF s1, of "W ''final_layer'' 0 0" "W ''final_layer'' 0 1"
      "W ''final_layer'' 0 3"]
  obtain t' where g: "call (final_layer self) t1
      = Inr (tmap tanh_f32 (filled [n, 3, 2 * 2 ^ length hds, 2 * 2 ^ length hds]
               (W ''final_layer'' 0 3 t')))"
    by (auto simp: f simp del: call.simps)
  show ?thesis
    apply (rule exI [of _ t'])
    using d v t1(1) g by (simp add: decode_def f(7) del: data_filled)
qed



lemma forward_returns:
  assumes init: "IWAE_init W hp c ld hidden_dims ns = Inr (self, hp')"
    and ref: "case hidden_dims of None \<Rightarrow> True | Some a \<Rightarrow> a < length (lists hp)"
    and hds: "hds = (case hidden_dims of None \<Rightarrow> [32, 64, 128, 256, 512] | Some a \<Rightarrow> lists hp ! a)"
    and l512: "last hds = 512"
    and sh: "shape input = [n, c, h, wd]" and pos: "0 < h" "0 < wd" "0 < n"
    and acc: "(conv_out 3 2 1 ^^ length hds) h * (conv_out 3 2 1 ^^ length hds) wd = 4"
  shows "\<exists>fl recons.
           let mu = filled [n, ld] (W ''fc_mu'' 0 0 fl);
               log_var = filled [n, ld] (W ''fc_var'' 0 0 fl);
               z = \<lparr>shape = [n, ld],
                    data = map2 (+) (map2 (*) (map noise [0..<numel [n, ld]])
                                          (map exp (map (\<lambda>x. 0.5 * x) (data log_var))))
                                    (data mu)\<rparr>;
               eps = \<lparr>shape = [n, ld],
                      data = map2 (/) (map2 (-) (data z) (data mu)) (data log_var)\<rparr>
           in forward self noise input = Inr [recons, input, mu, log_var, z, eps] \<and>
              decode self z = Inr recons"
proof -
  from encode_returns [OF init ref hds sh pos(1,2) acc]
  obtain fl where e0: "encode self input =
      Inr (filled [n, ld] (W ''fc_mu'' 0 0 fl), filled [n, ld] (W ''fc_var'' 0 0 fl))"
    by blast
  define mu where "mu = filled [n, ld] (W ''fc_mu'' 0 0 fl)"
  define lv where "lv = filled [n, ld] (W ''fc_var'' 0 0 fl)"
  define z where "z = \<lparr>shape = [n, ld],
              data = map2 (+) (map2 (*) (map noise [0..<numel [n, ld]])
                                    (map exp (map (\<lambda>x. 0.5 * x) (data lv))))
                              (data mu)\<rparr>"
  have e: "encode self input = Inr (mu, lv)"
    using e0 by (simp add: mu_def lv_def)
  have ms: "shape mu = [n, ld]" "shape lv = [n, ld]"
    by (simp_all add: mu_def lv_def)
  have r: "reparameterize self noise mu lv = Inr z"
    by (simp add: reparameterize_def Let_def bop_same ms z_def)
  have zs: "shape z = [n, ld]"
    by (simp add: z_def)
  from decode_returns [OF init ref hds l512 zs pos(3)]
  obtain recons where d: "decode self z = Inr recons"
    by blast
  have "forward self noise input = Inr [recons, input, mu, lv, z,
          \<lparr>shape = [n, ld], data = map2 (/) (map2 (-) (data z) (data mu)) (data lv)\<rparr>]"
    by (simp add: forward_def e r d bop_same zs ms)
  with d show ?thesis
    unfolding Let_def mu_def lv_def z_def by blast
qed

section \<open>Encoding and decoding\<close>

text \<open>
  C4. For a model that the constructor has built and an input batch of the
  accepted shape (\<open>n\<close> images with the configured number of channels, whose
  height and width the encoder's stride-2 convolutions bring down to four
  positions in all, as the two linear layers require), \<^verbatim>\<open>encode\<close> returns two
  tensors, the mean and the log-variance, each holding for every one of the
  \<open>n\<close> images a vector of length \<^verbatim>\<open>latent_dim\<close>.
\<close>

theorem encode_returns_latent_vectors:
  assumes "IWAE_init W hp in_channels ld hidden_dims ns = Inr (self, hp')"
    and "case hidden_dims of None \<Rightarrow> True | Some a \<Rightarrow> a < length (lists hp)"
    and "hds = (case hidden_dims of None \<Rightarrow> [32, 64, 128, 256, 512] | Some a \<Rightarrow> lists hp ! a)"
    and "shape input = [n, in_channels, h, wd]" and "0 < h" and "0 < wd"
    and "(conv_out 3 2 1 ^^ length hds) h * (conv_out 3 2 1 ^^ length hds) wd = 4"
  shows "\<exists>mu log_var. encode self input = Inr (mu, log_var) \<and>
           latent_dim self = ld \<and>
           shape mu = [n, latent_dim self] \<and> shape log_var = [n, latent_dim self] \<and>
           wf_tensor mu \<and> wf_tensor log_var"
proof -
  from encode_returns [OF assms]
  obtain fl where e: "encode self input =
      Inr (filled [n, ld] (W ''fc_mu'' 0 0 fl), filled [n, ld] (W ''fc_var'' 0 0 fl))"
    by blast
  have "latent_dim self = ld"
    by (rule init_fields(2) [OF assms(1,2,3)])
  with e show ?thesis
    by (simp add: wf_tensor_def)
qed

theorem encode_returns_latent_vectors_witness:
  "\<exists>self hp' mu log_var.
     IWAE_init (\<lambda>a i j t k. 0) \<lparr>lists = [], drawn = 0\<rparr> 3 2 None 5 = Inr (self, hp') \<and>
     (conv_out 3 2 1 ^^ length [32, 64, 128, 256, 512::nat]) 64
       * (conv_out 3 2 1 ^^ length [32, 64, 128, 256, 512::nat]) 64 = 4 \<and>
     encode self \<lparr>shape = [7, 3, 64, 64], data = replicate 86016 0\<rparr> = Inr (mu, log_var) \<and>
     shape mu = [7, 2] \<and> shape log_var = [7, 2]"
proof -
  obtain self hp' where a: "IWAE_init (\<lambda>a i j t k. 0) \<lparr>lists = [], drawn = 0\<rparr> 3 2 None 5 = Inr (self, hp')"
    using init_default_returns by blast
  have acc: "(conv_out 3 2 1 ^^ length [32, 64, 128, 256, 512::nat]) 64
       * (conv_out 3 2 1 ^^ length [32, 64, 128, 256, 512::nat]) 64 = 4"
    by (simp add: conv_out_def)
  have sh: "shape \<lparr>shape = [7, 3, 64, 64], data = replicate 86016 0\<rparr> = [7, 3, 64, 64]"
    by simp
  from encode_returns_latent_vectors [OF a _ _ sh _ _ acc]
  show ?thesis
    using a acc by auto
qed

text \<open>
  C5. The claim: \<^verbatim>\<open>decode\<close> returns an image with as many channels as the
  model was configured with (\<^verbatim>\<open>in_channels\<close>). The code gives every image 3
  channels: the last convolution of \<^verbatim>\<open>final_layer\<close> is built with
  \<^verbatim>\<open>out_channels = 3\<close> (line 75), whatever \<^verbatim>\<open>in_channels\<close> is. For every
  configuration in which \<^verbatim>\<open>decode\<close> can run at all (the widest hidden layer
  has the 512 channels that line 98 assumes) and every batch of \<open>n > 0\<close> latent
  vectors, \<^verbatim>\<open>decode\<close> returns \<open>n\<close> images of 3 channels.
\<close>

theorem decode_has_three_channels:
  assumes "IWAE_init W hp in_channels ld hidden_dims ns = Inr (self, hp')"
    and "case hidden_dims of None \<Rightarrow> True | Some a \<Rightarrow> a < length (lists hp)"
    and "hds = (case hidden_dims of None \<Rightarrow> [32, 64, 128, 256, 512] | Some a \<Rightarrow> lists hp ! a)"
    and "last hds = 512"
    and "shape z = [n, ld]" and "0 < n"
  shows "\<exists>img. decode self z = Inr img \<and>
           shape img = [n, 3, 2 ^ (length hds + 1), 2 ^ (length hds + 1)]"
proof -
  from decode_returns [OF assms]
  obtain g where "decode self z =
      Inr (tmap tanh_f32 (filled [n, 3, 2 ^ (length hds + 1), 2 ^ (length hds + 1)] g))"
    by blast
  then show ?thesis by simp
qed

theorem decode_has_three_channels_witness:
  "\<exists>self hp' img.
     IWAE_init (\<lambda>a i j t k. 0) \<lparr>lists = [], drawn = 0\<rparr> 1 2 None 5 = Inr (self, hp') \<and>
     last [32, 64, 128, 256, 512::nat] = 512 \<and>
     decode self \<lparr>shape = [1, 2], data = [0, 0]\<rparr> = Inr img \<and>
     shape img = [1, 3, 64, 64] \<and> shape img ! 1 \<noteq> 1"
proof -
  obtain self hp' where a: "IWAE_init (\<lambda>a i j t k. 0) \<lparr>lists = [], drawn = 0\<rparr> 1 2 None 5 = Inr (self, hp')"
    using init_default_returns by blast
  have sh: "shape \<lparr>shape = [1, 2], data = [0, 0::real]\<rparr> = [1, 2]"
    by simp
  from decode_has_three_channels [OF a _ _ _ sh, of "[32, 64, 128, 256, 512]"]
  obtain img where "decode self \<lparr>shape = [1, 2], data = [0, 0]\<rparr> = Inr img"
    "shape img = [1, 3, 64, 64]"
    by auto
  with a show ?thesis
    by auto
qed




section \<open>The forward pass\<close>

text \<open>
  C3. The claim: \<^verbatim>\<open>forward\<close> returns six tensors, the second is the input,
  the first is \<^verbatim>\<open>decode\<close> of the fifth, and the sixth is the noise recovered
  from the latent, \<open>(z - mu) / exp (0.5 \<cdot> log_var)\<close>. The first three hold (see
  \<open>forward_returns\<close>). The sixth does not: line 118 divides by \<^verbatim>\<open>log_var\<close>
  itself. For the default model whose linear layers give mean 0 and
  log-variance 2, one 64 by 64 image and the noise draw 1, the latent is
  \<open>exp 1\<close>, and the sixth output is \<open>exp 1 / 2\<close>, while the recovered noise
  \<open>(z - mu) / exp (0.5 \<cdot> log_var)\<close> is the draw, 1.
\<close>

theorem forward_noise_ratio_divides_by_log_var:
  "\<exists>self hp' recons mu log_var z eps.
     IWAE_init (\<lambda>a i j t k. if a = ''fc_var'' then 2 else 0) \<lparr>lists = [], drawn = 0\<rparr> 3 1 None 5 = Inr (self, hp') \<and>
     forward self (\<lambda>i. 1) \<lparr>shape = [1, 3, 64, 64], data = replicate 12288 0\<rparr>
       = Inr [recons, \<lparr>shape = [1, 3, 64, 64], data = replicate 12288 0\<rparr>, mu, log_var, z, eps] \<and>
     decode self z = Inr recons \<and>
     data mu = [0] \<and> data log_var = [2] \<and> data z = [exp 1] \<and>
     data eps = [exp 1 / 2] \<and>
     (exp 1 - 0) / exp (0.5 * 2) = (1::real) \<and> exp 1 / 2 \<noteq> (1::real)"
proof -
  let ?W = "\<lambda>(a::string) (i::nat) (j::nat) (t::tensor) (k::nat). if a = ''fc_var'' then 2 else (0::real)"
  obtain self hp' where a: "IWAE_init ?W \<lparr>lists = [], drawn = 0\<rparr> 3 1 None 5 = Inr (self, hp')"
    using init_default_returns by blast
  have xs: "shape \<lparr>shape = [1, 3, 64, 64], data = replicate 12288 (0::real)\<rparr> = [1, 3, 64, 64]"
    by simp
  have acc: "(conv_out 3 2 1 ^^ length [32, 64, 128, 256, 512::nat]) 64
       * (conv_out 3 2 1 ^^ length [32, 64, 128, 256, 512::nat]) 64 = 4"
    by (simp add: conv_out_def)
  have e: "exp 1 / 2 \<noteq> (1::real)"
    using exp_lower_Taylor_quadratic [of "1::real"] by simp
  from forward_returns [OF a _ _ _ xs _ _ _ acc, of "\<lambda>i. 1"]
  show ?thesis
    using a e by (auto simp: Let_def numel_def)
qed

end
